theory Spec2Isabelle
  imports Complex_Main
begin

section \<open>Circuits\<close>

text \<open>
  The Python code reads a circuit through three attributes only: \<^verbatim>\<open>circuit.operations\<close>,
  \<^verbatim>\<open>circuit.n_qubits\<close> and, for every operation, \<^verbatim>\<open>op.gate.name\<close> and
  \<^verbatim>\<open>op.qubit_indices\<close>. Gate names are Python strings, qubit indices and the qubit count
  are Python integers. Calling \<^verbatim>\<open>op.gate(*qs)\<close> builds the same gate on other qubits,
  which is a record update of \<open>qubit_indices\<close>.
\<close>

record operation =
  gate_name :: string
  qubit_indices :: "int list"

record circuit =
  operations :: "operation list"
  n_qubits :: int

text \<open>The operations \<^verbatim>\<open>CNOT(c, t)\<close>, \<^verbatim>\<open>H(q)\<close> and \<^verbatim>\<open>T(q)\<close>.\<close>

definition CNOT :: "int \<Rightarrow> int \<Rightarrow> operation" where
  "CNOT c t = \<lparr>gate_name = ''CNOT'', qubit_indices = [c, t]\<rparr>"

definition H_gate :: "int \<Rightarrow> operation" where
  "H_gate q = \<lparr>gate_name = ''H'', qubit_indices = [q]\<rparr>"

definition T_gate :: "int \<Rightarrow> operation" where
  "T_gate q = \<lparr>gate_name = ''T'', qubit_indices = [q]\<rparr>"

section \<open>Conversion to ICM form: \<^verbatim>\<open>get_icm\<close>\<close>

text \<open>
  \<^verbatim>\<open>get_icm\<close> keeps three local variables while it walks over the operations: the
  dictionary \<^verbatim>\<open>compiled_qubit_index\<close>, the output list \<^verbatim>\<open>icm_circuit\<close> and the counter
  \<^verbatim>\<open>icm_circuit_n_qubits\<close>. They are the fields of the loop state.
\<close>

datatype error = KeyError int

record icm_state =
  compiled_qubit_index :: "int \<rightharpoonup> int"
  icm_circuit :: "operation list"
  icm_circuit_n_qubits :: int

text \<open>\<^verbatim>\<open>{i: i for i in range(n)}\<close>, \<^verbatim>\<open>[]\<close> and \<^verbatim>\<open>n - 1\<close>.\<close>

definition icm_init :: "int \<Rightarrow> icm_state" where
  "icm_init n =
     \<lparr>compiled_qubit_index = (\<lambda>q. if 0 \<le> q \<and> q < n then Some q else None),
      icm_circuit = [],
      icm_circuit_n_qubits = n - 1\<rparr>"

text \<open>\<^verbatim>\<open>d.get(qubit, qubit)\<close>: the stored value, the key itself when it is absent.\<close>

definition dict_get :: "(int \<rightharpoonup> int) \<Rightarrow> int \<Rightarrow> int" where
  "dict_get d q = (case d q of Some v \<Rightarrow> v | None \<Rightarrow> q)"

text \<open>\<^verbatim>\<open>[d[i] for i in qs]\<close>: the first absent key raises \<^verbatim>\<open>KeyError\<close>.\<close>

fun dict_items :: "(int \<rightharpoonup> int) \<Rightarrow> int list \<Rightarrow> error + int list" where
  "dict_items d [] = Inr []"
| "dict_items d (q # qs) =
     (case d q of
        None \<Rightarrow> Inl (KeyError q)
      | Some v \<Rightarrow> (case dict_items d qs of Inl e \<Rightarrow> Inl e | Inr vs \<Rightarrow> Inr (v # vs)))"

text \<open>
  The inner loop of the first branch, over \<^verbatim>\<open>zip(op.qubit_indices, compiled_qubits)\<close>:
  count up, store the new index for the original qubit, emit a CNOT onto the new index.
\<close>

fun decompose_loop :: "(int \<times> int) list \<Rightarrow> icm_state \<Rightarrow> icm_state" where
  "decompose_loop [] st = st"
| "decompose_loop ((original_qubit, compiled_qubit) # rest) st =
     (let n = icm_circuit_n_qubits st + 1 in
      decompose_loop rest
        (st\<lparr>icm_circuit_n_qubits := n,
            compiled_qubit_index := (compiled_qubit_index st)(original_qubit \<mapsto> n),
            icm_circuit := icm_circuit st @ [CNOT compiled_qubit n]\<rparr>))"

text \<open>The inner loop of the \<^verbatim>\<open>RESET\<close> branch: the same without the CNOT.\<close>

fun reset_loop :: "(int \<times> int) list \<Rightarrow> icm_state \<Rightarrow> icm_state" where
  "reset_loop [] st = st"
| "reset_loop ((original_qubit, compiled_qubit) # rest) st =
     (let n = icm_circuit_n_qubits st + 1 in
      reset_loop rest
        (st\<lparr>icm_circuit_n_qubits := n,
            compiled_qubit_index := (compiled_qubit_index st)(original_qubit \<mapsto> n)\<rparr>))"

text \<open>One iteration of the outer loop.\<close>

definition icm_op :: "string list \<Rightarrow> operation \<Rightarrow> icm_state \<Rightarrow> error + icm_state" where
  "icm_op gates_to_decompose op st =
     (let compiled_qubits = map (dict_get (compiled_qubit_index st)) (qubit_indices op) in
      if gate_name op \<in> set gates_to_decompose then
        Inr (decompose_loop (zip (qubit_indices op) compiled_qubits) st)
      else if gate_name op = ''RESET'' then
        Inr (reset_loop (zip (qubit_indices op) compiled_qubits) st)
      else
        (case dict_items (compiled_qubit_index st) (qubit_indices op) of
           Inl e \<Rightarrow> Inl e
         | Inr qs \<Rightarrow> Inr (st\<lparr>icm_circuit := icm_circuit st @ [op\<lparr>qubit_indices := qs\<rparr>]\<rparr>)))"

fun icm_loop :: "string list \<Rightarrow> operation list \<Rightarrow> icm_state \<Rightarrow> error + icm_state" where
  "icm_loop gates_to_decompose [] st = Inr st"
| "icm_loop gates_to_decompose (op # ops) st =
     (case icm_op gates_to_decompose op st of
        Inl e \<Rightarrow> Inl e
      | Inr st' \<Rightarrow> icm_loop gates_to_decompose ops st')"

definition icm_run :: "string list \<Rightarrow> circuit \<Rightarrow> error + icm_state" where
  "icm_run gates_to_decompose c =
     icm_loop gates_to_decompose (operations c) (icm_init (n_qubits c))"

text \<open>The operations of the returned \<^verbatim>\<open>Circuit(icm_circuit)\<close>.\<close>

definition get_icm :: "string list \<Rightarrow> circuit \<Rightarrow> error + operation list" where
  "get_icm gates_to_decompose c =
     (case icm_run gates_to_decompose c of Inl e \<Rightarrow> Inl e | Inr st \<Rightarrow> Inr (icm_circuit st))"

text \<open>The default value of the parameter \<^verbatim>\<open>gates_to_decompose\<close>.\<close>

definition default_gates_to_decompose :: "string list" where
  "default_gates_to_decompose = [''T'', ''T_Dagger'', ''RZ'']"

text \<open>
  The gate names \<^verbatim>\<open>get_target_tableau\<close> accepts, in the order of its \<^verbatim>\<open>if\<close> chain; for any
  other name it raises \<^verbatim>\<open>ValueError\<close>. These are the Clifford gates of the test-suite.
\<close>

definition clifford_gate_names :: "string list" where
  "clifford_gate_names =
     [''I'', ''X'', ''Y'', ''Z'', ''CNOT'', ''S_Dagger'', ''S'', ''SX'', ''SX_Dagger'', ''H'', ''CZ'']"


subsection \<open>The trace of index allocations\<close>

text \<open>
  Both allocating branches execute \<^verbatim>\<open>icm_circuit_n_qubits += 1\<close> followed by
  \<^verbatim>\<open>compiled_qubit_index[original_qubit] = icm_circuit_n_qubits\<close> once for every qubit
  of the operation. \<open>fresh c k\<close> are the \<open>k\<close> values the counter takes when it starts
  from \<open>c\<close>; \<open>op_allocations\<close> lists the assignments of one iteration and
  \<open>allocations\<close> those of a whole run, in the order in which they are executed, as pairs
  (original qubit, new index).
\<close>

definition allocates :: "string list \<Rightarrow> operation \<Rightarrow> bool" where
  "allocates gates_to_decompose op \<longleftrightarrow>
     gate_name op \<in> set gates_to_decompose \<or> gate_name op = ''RESET''"

primrec fresh :: "int \<Rightarrow> nat \<Rightarrow> int list" where
  "fresh c 0 = []"
| "fresh c (Suc k) = (c + 1) # fresh (c + 1) k"

definition op_allocations :: "string list \<Rightarrow> int \<Rightarrow> operation \<Rightarrow> (int \<times> int) list" where
  "op_allocations gates_to_decompose c op =
     (if allocates gates_to_decompose op
      then zip (qubit_indices op) (fresh c (length (qubit_indices op)))
      else [])"

fun allocations :: "string list \<Rightarrow> int \<Rightarrow> operation list \<Rightarrow> (int \<times> int) list" where
  "allocations gates_to_decompose c [] = []"
| "allocations gates_to_decompose c (op # ops) =
     (let a = op_allocations gates_to_decompose c op in
      a @ allocations gates_to_decompose (c + int (length a)) ops)"

text \<open>
  The index most recently allocated for a qubit in a trace, and the index an operation
  on that qubit is to be moved to: the most recent allocation, the qubit itself when there
  is none.
\<close>

definition latest_ancilla :: "(int \<times> int) list \<Rightarrow> int \<Rightarrow> int option" where
  "latest_ancilla hist q = map_of (rev hist) q"

definition current_index :: "(int \<times> int) list \<Rightarrow> int \<Rightarrow> int" where
  "current_index hist q = (case latest_ancilla hist q of Some a \<Rightarrow> a | None \<Rightarrow> q)"

section \<open>Comparing stabilizer tableaus\<close>

text \<open>
  A tableau is a two-dimensional boolean numpy array: one row per stabilizer generator,
  the X bits of all qubits followed by the Z bits.
\<close>

type_synonym tableau = "bool list list"

definition shape :: "tableau \<Rightarrow> nat \<times> nat" where
  "shape t = (length t, case t of [] \<Rightarrow> 0 | r # _ \<Rightarrow> length r)"

text \<open>
  \<^verbatim>\<open>np.logical_and\<close> on one-dimensional arrays: elementwise on equal lengths, an array
  of length one is broadcast, anything else raises.
\<close>

definition logical_and :: "bool list \<Rightarrow> bool list \<Rightarrow> bool list option" where
  "logical_and x y =
     (if length x = length y then Some (map2 (\<and>) x y)
      else if length x = 1 then Some (map (\<lambda>b. hd x \<and> b) y)
      else if length y = 1 then Some (map (\<lambda>a. a \<and> hd y) x)
      else None)"

text \<open>
  \<^verbatim>\<open>_bool_dot\<close>: the dot product with exclusive or as the addition. Reading element 0 of
  an empty array is the failure \<open>None\<close>.
\<close>

definition bool_dot :: "bool list \<Rightarrow> bool list \<Rightarrow> bool option" where
  "bool_dot x y =
     (case logical_and x y of
        None \<Rightarrow> None
      | Some [] \<Rightarrow> None
      | Some (a # rest) \<Rightarrow> Some (foldl (\<lambda>ans i. ans \<noteq> i) a rest))"

definition commutes :: "bool list \<Rightarrow> bool list \<Rightarrow> bool option" where
  "commutes stab_1 stab_2 =
     (let n_qubits = length stab_1 div 2 in
      case bool_dot (take n_qubits stab_1) (drop n_qubits stab_2) of
        None \<Rightarrow> None
      | Some comm1 \<Rightarrow>
          (case bool_dot (drop n_qubits stab_1) (take n_qubits stab_2) of
             None \<Rightarrow> None
           | Some comm2 \<Rightarrow> Some (\<not> (comm1 \<noteq> comm2))))"

text \<open>
  \<^verbatim>\<open>check_tableau_entries_commute\<close>: the two nested loops, \<open>i\<close> over
  \<^verbatim>\<open>range(n_qubits)\<close> and \<open>j\<close> over \<^verbatim>\<open>range(i, n_qubits)\<close>, where \<^verbatim>\<open>n_qubits\<close> is
  \<^verbatim>\<open>len(tableau_1) // 2\<close>. A row index outside the second tableau is the failure
  \<open>None\<close>.
\<close>

fun commute_inner :: "tableau \<Rightarrow> tableau \<Rightarrow> nat \<Rightarrow> nat list \<Rightarrow> bool option" where
  "commute_inner tableau_1 tableau_2 i [] = Some True"
| "commute_inner tableau_1 tableau_2 i (j # js) =
     (if length tableau_2 \<le> j then None
      else (case commutes (tableau_1 ! i) (tableau_2 ! j) of
              None \<Rightarrow> None
            | Some False \<Rightarrow> Some False
            | Some True \<Rightarrow> commute_inner tableau_1 tableau_2 i js))"

fun commute_outer :: "tableau \<Rightarrow> tableau \<Rightarrow> nat \<Rightarrow> nat list \<Rightarrow> bool option" where
  "commute_outer tableau_1 tableau_2 n [] = Some True"
| "commute_outer tableau_1 tableau_2 n (i # is) =
     (case commute_inner tableau_1 tableau_2 i [i..<n] of
        None \<Rightarrow> None
      | Some False \<Rightarrow> Some False
      | Some True \<Rightarrow> commute_outer tableau_1 tableau_2 n is)"

definition check_tableau_entries_commute :: "tableau \<Rightarrow> tableau \<Rightarrow> bool option" where
  "check_tableau_entries_commute tableau_1 tableau_2 =
     (let n_qubits = length tableau_1 div 2 in
      commute_outer tableau_1 tableau_2 n_qubits [0..<n_qubits])"

text \<open>
  \<^verbatim>\<open>np.linalg.matrix_rank\<close> is numpy's: the rank of the array read as a matrix of the
  numbers 0 and 1. It is computed here exactly, by elimination over the rationals, one
  column at a time: \<open>rank_elim k rows\<close> is the rank of rows of length \<open>k\<close>.
\<close>

primrec rank_elim :: "nat \<Rightarrow> rat list list \<Rightarrow> nat" where
  "rank_elim 0 rows = 0"
| "rank_elim (Suc k) rows =
     (case filter (\<lambda>r. hd r \<noteq> 0) rows of
        [] \<Rightarrow> rank_elim k (map tl rows)
      | p # _ \<Rightarrow>
          Suc (rank_elim k
                 (map (\<lambda>r. tl (map2 (\<lambda>a b. a - hd r / hd p * b) r p)) (remove1 p rows))))"

definition matrix_rank :: "tableau \<Rightarrow> nat" where
  "matrix_rank t =
     rank_elim (snd (shape t)) (map (map (\<lambda>b. if b then 1 else 0)) t)"

text \<open>
  \<^verbatim>\<open>assert_tableaus_correspond_to_the_same_stabilizer_state\<close>: \<open>True\<close> when none of its
  four \<^verbatim>\<open>assert\<close> statements raises. The second one is \<^verbatim>\<open>assert check_tableau_entries_commute\<close>:
  it tests the function object, which is truthy, and calls nothing.
\<close>

definition assert_tableaus_correspond_to_the_same_stabilizer_state ::
    "tableau \<Rightarrow> tableau \<Rightarrow> bool" where
  "assert_tableaus_correspond_to_the_same_stabilizer_state tableau_1 tableau_2 \<longleftrightarrow>
     (let n_qubits = length tableau_2 in
      shape tableau_1 = shape tableau_2
      \<and> True
      \<and> matrix_rank tableau_1 = n_qubits
      \<and> matrix_rank tableau_2 = n_qubits)"

section \<open>The graph-state compiler\<close>

text \<open>
  The compiler itself (\<^verbatim>\<open>compile\<close>, reached from Python as
  \<^verbatim>\<open>jl.get_rbs_graph_state_data\<close> and \<^verbatim>\<open>jl.run_ruby_slippers\<close>) is Julia code that is
  not among the sources; the Python sources hold its callers and its tests only. The
  definitions of this section follow sections 2, 3, 4.1, 4.3, 4.4, 4.6 and 7 of the
  specification. The local-Clifford class of a vertex, the stabilizer tableau and the
  layering are not modelled: nothing below depends on them.
\<close>

text \<open>
  Modelled from the spec: the hyperparameter record of the missing compiler (section 6:
  five unsigned fields), which the tests build as \<^verbatim>\<open>jl.RbSHyperparams\<close>.
\<close>

record hyperparams =
  teleportation_threshold :: nat
  teleportation_distance :: nat
  min_neighbor_degree :: nat
  max_num_neighbors_to_search :: nat
  decomposition_strategy :: nat

text \<open>
  Modelled from the spec: the graph state of the missing compiler (sections 3 and 9), an
  arena of vertices with dense ids \<open>0, 1, \<dots>\<close>; \<open>edge_data g ! v\<close> holds the neighbour
  ids of vertex \<open>v\<close>.
  \<open>attachment g q\<close> is the vertex at which couplings of qubit \<open>q\<close> are currently placed
  (section 4.4: the tail of a chain becomes the new attachment point), and
  \<open>n_teleportations\<close> counts the invocations of teleportation recovery.
\<close>

record graph_state =
  edge_data :: "nat list list"
  attachment :: "nat \<Rightarrow> nat"
  n_teleportations :: nat

text \<open>
  Modelled from the spec: the failures of the missing compiler (section 7), together with
  a failure of the normalizer and a coupling on a qubit index that the normalized circuit
  does not have.
\<close>

datatype compile_error =
    NormalizerFailed error
  | UnsupportedGateKind string
  | GraphSizeExceeded
  | QubitOutOfRange int

text \<open>
  Modelled from the spec: the missing search for a rebalancing candidate among the
  neighbours of a saturated vertex (section 4.3). The specification gives its bounds
  only, so the search is a parameter of the model: a function from the hyperparameters,
  the graph and the vertex to an optional vertex.
\<close>

type_synonym candidate_search = "hyperparams \<Rightarrow> graph_state \<Rightarrow> nat \<Rightarrow> nat option"

text \<open>Modelled from the spec: the missing search, in the case that it finds nothing.\<close>

definition no_candidate :: candidate_search where
  "no_candidate hp g v = None"

text \<open>
  Modelled from the spec: the graph the missing builder starts from (section 3: one
  vertex per qubit), without edges; every qubit is attached to the vertex of its own
  index.
\<close>

definition init_graph :: "nat \<Rightarrow> graph_state" where
  "init_graph n = \<lparr>edge_data = replicate n [], attachment = (\<lambda>q. q), n_teleportations = 0\<rparr>"

text \<open>Modelled from the spec: the vertex count of the missing graph state.\<close>

definition n_vertices :: "graph_state \<Rightarrow> nat" where
  "n_vertices g = length (edge_data g)"

text \<open>
  Modelled from the spec: the degree of a vertex of the missing graph state; a vertex id
  outside the arena has no neighbours.
\<close>

definition degree :: "graph_state \<Rightarrow> nat \<Rightarrow> nat" where
  "degree g v = (if v < n_vertices g then length (edge_data g ! v) else 0)"

text \<open>Modelled from the spec: the neighbour ids of a vertex of the missing graph state.\<close>

definition neighbors :: "graph_state \<Rightarrow> nat \<Rightarrow> nat list" where
  "neighbors g v = (if v < n_vertices g then edge_data g ! v else [])"

text \<open>
  Modelled from the spec: adding an edge in the missing graph builder (section 3: edges
  are symmetric and the neighbour ids of a vertex form a set).
\<close>

definition add_edge :: "nat \<Rightarrow> nat \<Rightarrow> graph_state \<Rightarrow> graph_state" where
  "add_edge u v g =
     (let e1 = (edge_data g)[u := List.insert v (neighbors g u)];
          e2 = e1[v := List.insert u (if v < length e1 then e1 ! v else [])]
      in g\<lparr>edge_data := e2\<rparr>)"

text \<open>
  Modelled from the spec: the neighbours of vertex number \<open>i\<close> of the chain that the
  missing teleportation recovery inserts (section 4.4: a linear chain): its predecessor,
  which is the overloaded vertex \<open>v\<close> for the head, and its successor, if any.
\<close>

definition chain_neighbors :: "nat \<Rightarrow> nat \<Rightarrow> nat \<Rightarrow> nat \<Rightarrow> nat list" where
  "chain_neighbors v n d i =
     (if i = 0 then [v] else [n + i - 1]) @ (if Suc i < d then [n + Suc i] else [])"

text \<open>
  Modelled from the spec: the missing teleportation recovery (section 4.4). A linear
  chain of \<open>teleportation_distance\<close> fresh vertices \<open>n, \<dots>, n + d - 1\<close> is appended; the
  overloaded vertex \<open>v\<close> is wired to the head of the chain, each chain vertex to its
  successor, and the tail is returned as the new attachment point. With distance 0 the
  chain is empty and \<open>v\<close> stays the attachment point.
\<close>

definition teleportation :: "hyperparams \<Rightarrow> nat \<Rightarrow> graph_state \<Rightarrow> graph_state \<times> nat" where
  "teleportation hp v g =
     (let n = n_vertices g; d = teleportation_distance hp in
      if d = 0 then (g\<lparr>n_teleportations := Suc (n_teleportations g)\<rparr>, v)
      else
        (g\<lparr>edge_data :=
             (edge_data g)[v := List.insert n (neighbors g v)] @ map (chain_neighbors v n d) [0..<d],
           n_teleportations := Suc (n_teleportations g)\<rparr>,
         n + d - 1))"

text \<open>
  Modelled from the spec: the missing choice of the vertex at which the next edge of
  qubit \<open>q\<close> is placed (sections 4.3 and 7). When the edge would make the degree of the attachment vertex exceed
  \<open>teleportation_threshold\<close>, a candidate found among the current neighbours absorbs the
  edge; when there is none, teleportation recovery runs, unless the chain would make the
  vertex count exceed \<open>max_graph_size\<close>.
\<close>

definition resolve_endpoint ::
    "hyperparams \<Rightarrow> nat \<Rightarrow> candidate_search \<Rightarrow> nat \<Rightarrow> graph_state
       \<Rightarrow> compile_error + graph_state \<times> nat" where
  "resolve_endpoint hp max_graph_size search q g =
     (let v = attachment g q in
      if teleportation_threshold hp < degree g v + 1 then
        (case (case search hp g v of
                 Some u \<Rightarrow> if u \<in> set (neighbors g v) then Some u else None
               | None \<Rightarrow> None) of
           Some u \<Rightarrow> Inr (g, u)
         | None \<Rightarrow>
             if max_graph_size < n_vertices g + teleportation_distance hp
             then Inl GraphSizeExceeded
             else (let (g', tail) = teleportation hp v g
                   in Inr (g'\<lparr>attachment := (attachment g')(q := tail)\<rparr>, tail)))
      else Inr (g, v))"

text \<open>
  Modelled from the spec: the missing edge placement for one coupling (section 4.3): both
  endpoints are resolved, the first one first, then the edge is added.
\<close>

definition place_edge ::
    "hyperparams \<Rightarrow> nat \<Rightarrow> candidate_search \<Rightarrow> nat \<Rightarrow> nat \<Rightarrow> graph_state
       \<Rightarrow> compile_error + graph_state" where
  "place_edge hp max_graph_size search a b g =
     (case resolve_endpoint hp max_graph_size search a g of
        Inl e \<Rightarrow> Inl e
      | Inr (g1, u) \<Rightarrow>
          (case resolve_endpoint hp max_graph_size search b g1 of
             Inl e \<Rightarrow> Inl e
           | Inr (g2, w) \<Rightarrow> Inr (add_edge u w g2)))"

text \<open>
  Modelled from the spec: the missing graph builder on one operation of the normalized
  gate stream (sections 4.1, 4.3 and 7). A coupling
  (\<^verbatim>\<open>CNOT\<close> or \<^verbatim>\<open>CZ\<close> on two qubits) places an edge; any other Clifford gate changes no
  adjacency; a gate that is not Clifford is the error \<open>UnsupportedGateKind\<close>. \<open>n_icm\<close> is
  the number of qubits of the normalized circuit.
\<close>

definition builder_op ::
    "hyperparams \<Rightarrow> nat \<Rightarrow> candidate_search \<Rightarrow> nat \<Rightarrow> operation \<Rightarrow> graph_state
       \<Rightarrow> compile_error + graph_state" where
  "builder_op hp max_graph_size search n_icm op g =
     (if gate_name op = ''CNOT'' \<or> gate_name op = ''CZ'' then
        (case qubit_indices op of
           [a, b] \<Rightarrow>
             if a < 0 \<or> int n_icm \<le> a then Inl (QubitOutOfRange a)
             else if b < 0 \<or> int n_icm \<le> b then Inl (QubitOutOfRange b)
             else place_edge hp max_graph_size search (nat a) (nat b) g
         | _ \<Rightarrow> Inl (UnsupportedGateKind (gate_name op)))
      else if gate_name op \<in> set clifford_gate_names then Inr g
      else Inl (UnsupportedGateKind (gate_name op)))"

text \<open>
  Modelled from the spec: the missing graph builder on the whole normalized gate stream,
  in order, stopping at the first error (section 4.3).
\<close>

fun builder_loop ::
    "hyperparams \<Rightarrow> nat \<Rightarrow> candidate_search \<Rightarrow> nat \<Rightarrow> operation list \<Rightarrow> graph_state
       \<Rightarrow> compile_error + graph_state" where
  "builder_loop hp max_graph_size search n_icm [] g = Inr g"
| "builder_loop hp max_graph_size search n_icm (op # ops) g =
     (case builder_op hp max_graph_size search n_icm op g of
        Inl e \<Rightarrow> Inl e
      | Inr g' \<Rightarrow> builder_loop hp max_graph_size search n_icm ops g')"

text \<open>
  Modelled from the spec: the missing entry point \<^verbatim>\<open>compile\<close> (data flow of section 2,
  size limit of section 7). The circuit is normalized to ICM form by \<^verbatim>\<open>get_icm\<close>, one
  vertex is created for every qubit index the normalization has handed out, and the graph
  builder consumes the normalized gate stream.
\<close>

definition compile ::
    "hyperparams \<Rightarrow> nat \<Rightarrow> candidate_search \<Rightarrow> string list \<Rightarrow> circuit
       \<Rightarrow> compile_error + graph_state" where
  "compile hp max_graph_size search gates_to_decompose c =
     (case icm_run gates_to_decompose c of
        Inl e \<Rightarrow> Inl (NormalizerFailed e)
      | Inr st \<Rightarrow>
          (let n_icm = nat (icm_circuit_n_qubits st + 1) in
           if max_graph_size < n_icm then Inl GraphSizeExceeded
           else builder_loop hp max_graph_size search n_icm (icm_circuit st) (init_graph n_icm)))"



text \<open>
  The quantities of the vertex-count formula: the number of operations whose gate is
  decomposed (the test takes \<^verbatim>\<open>n_t_gates + n_rotations\<close>), the number of qubits these
  operations act on, and the number of qubits the resets act on.
\<close>

definition n_non_clifford_gates :: "string list \<Rightarrow> circuit \<Rightarrow> nat" where
  "n_non_clifford_gates gates_to_decompose c =
     length (filter (\<lambda>op. gate_name op \<in> set gates_to_decompose) (operations c))"



text \<open>
  The default value of \<^verbatim>\<open>max_graph_size\<close> in \<^verbatim>\<open>get_ruby_slippers_circuit_compiler\<close>.
\<close>

definition default_max_graph_size :: nat where
  "default_max_graph_size = 10000000"

text \<open>
  The circuits of \<^verbatim>\<open>test_teleportation_produces_correct_number_of_nodes_for_small_circuits\<close>:
  \<^verbatim>\<open>Circuit([H(0), *[CNOT(0, i) for i in range(1, m)]])\<close> and
  \<^verbatim>\<open>Circuit([H(0), *[T(0) for _ in range(1, m)]])\<close>. The qubit count of a circuit built
  without an explicit count is the largest index used plus one.
\<close>

definition star_circuit :: "nat \<Rightarrow> circuit" where
  "star_circuit m =
     \<lparr>operations = H_gate 0 # map (\<lambda>i. CNOT 0 (int i)) [1..<m], n_qubits = int (max 1 m)\<rparr>"

definition t_chain_circuit :: "nat \<Rightarrow> circuit" where
  "t_chain_circuit m =
     \<lparr>operations = H_gate 0 # map (\<lambda>i. T_gate 0) [1..<m], n_qubits = 1\<rparr>"

text \<open>
  The hyperparameters of that test:
  \<^verbatim>\<open>jl.RbSHyperparams(UInt16(threshold), UInt8(distance), UInt8(6), UInt32(1e5), UInt8(0))\<close>.
\<close>

definition test_hyperparams :: "nat \<Rightarrow> nat \<Rightarrow> hyperparams" where
  "test_hyperparams threshold distance =
     \<lparr>teleportation_threshold = threshold, teleportation_distance = distance,
      min_neighbor_degree = 6, max_num_neighbors_to_search = 100000,
      decomposition_strategy = 0\<rparr>"


text \<open>
  The parameter table of
  \<^verbatim>\<open>test_teleportation_produces_correct_number_of_nodes_for_small_circuits\<close>: the circuit,
  \<^verbatim>\<open>teleportation_threshold\<close>, \<^verbatim>\<open>teleportation_distance\<close> and the number of
  teleportations the test expects. The test asserts that the number of nodes is
  \<^verbatim>\<open>circuit.n_qubits + (n_t_gates + n_rotations) + teleportation_distance * num_teleportations\<close>.
\<close>

definition teleportation_cases :: "(circuit \<times> nat \<times> nat \<times> nat) list" where
  "teleportation_cases =
     [(star_circuit 5, 4, 4, 0),
      (star_circuit 5, 3, 4, 1),
      (star_circuit 6, 4, 6, 1),
      (star_circuit 6, 4, 4, 1),
      (star_circuit 8, 4, 4, 1),
      (star_circuit 9, 4, 4, 2),
      (star_circuit 11, 4, 4, 2),
      (star_circuit 12, 4, 4, 3),
      (star_circuit 14, 4, 4, 3),
      (star_circuit 15, 4, 4, 4),
      (t_chain_circuit 5, 4, 4, 0)]"

definition expected_n_nodes :: "circuit \<Rightarrow> nat \<Rightarrow> nat \<Rightarrow> int" where
  "expected_n_nodes c distance num_teleportations =
     n_qubits c + int (n_non_clifford_gates default_gates_to_decompose c)
       + int (distance * num_teleportations)"

section \<open>Properties of \<^verbatim>\<open>get_icm\<close>\<close>

subsection \<open>Fresh indices\<close>

lemma length_fresh: "length (fresh c k) = k"
  by (induction k arbitrary: c) auto

lemma fresh_append: "fresh c (j + k) = fresh c j @ fresh (c + int j) k"
  by (induction j arbitrary: c) (auto simp: algebra_simps)

lemma set_fresh: "set (fresh c k) = {c + 1 .. c + int k}"
  by (induction k arbitrary: c) (auto simp: algebra_simps)

lemma distinct_fresh: "distinct (fresh c k)"
  by (induction k arbitrary: c) (auto simp: set_fresh)

subsection \<open>The loops in closed form\<close>

lemma decompose_loop_eq:
  "length cqs = length oqs \<Longrightarrow>
   decompose_loop (zip oqs cqs) st =
     st\<lparr>icm_circuit_n_qubits := icm_circuit_n_qubits st + int (length oqs),
        compiled_qubit_index :=
          compiled_qubit_index st
            ++ map_of (rev (zip oqs (fresh (icm_circuit_n_qubits st) (length oqs)))),
        icm_circuit :=
          icm_circuit st @ map2 CNOT cqs (fresh (icm_circuit_n_qubits st) (length oqs))\<rparr>"
proof (induction oqs cqs arbitrary: st rule: list_induct2')
  case 1
  show ?case by simp
next
  case (4 oq oqs cq cqs)
  then show ?case
    by (simp add: Let_def algebra_simps map_add_upd_left)
qed simp_all

lemma reset_loop_eq:
  "length cqs = length oqs \<Longrightarrow>
   reset_loop (zip oqs cqs) st =
     st\<lparr>icm_circuit_n_qubits := icm_circuit_n_qubits st + int (length oqs),
        compiled_qubit_index :=
          compiled_qubit_index st
            ++ map_of (rev (zip oqs (fresh (icm_circuit_n_qubits st) (length oqs))))\<rparr>"
proof (induction oqs cqs arbitrary: st rule: list_induct2')
  case 1
  show ?case by simp
next
  case (4 oq oqs cq cqs)
  then show ?case
    by (simp add: Let_def algebra_simps map_add_upd_left)
qed simp_all

lemma dict_items_eq:
  "dict_items d qs = Inr vs \<Longrightarrow> vs = map (dict_get d) qs"
  by (induction qs arbitrary: vs) (auto simp: dict_get_def split: option.splits sum.splits)


text \<open>One iteration of the outer loop, branch by branch.\<close>

lemma icm_op_decompose:
  assumes "gate_name op \<in> set gates"
  shows "icm_op gates op st =
     Inr (st\<lparr>icm_circuit_n_qubits := icm_circuit_n_qubits st + int (length (qubit_indices op)),
             compiled_qubit_index :=
               compiled_qubit_index st
                 ++ map_of (rev (zip (qubit_indices op)
                      (fresh (icm_circuit_n_qubits st) (length (qubit_indices op))))),
             icm_circuit :=
               icm_circuit st
                 @ map2 CNOT (map (dict_get (compiled_qubit_index st)) (qubit_indices op))
                     (fresh (icm_circuit_n_qubits st) (length (qubit_indices op)))\<rparr>)"
  using assms by (simp add: icm_op_def decompose_loop_eq)

lemma icm_op_reset:
  assumes "gate_name op \<notin> set gates" and "gate_name op = ''RESET''"
  shows "icm_op gates op st =
     Inr (st\<lparr>icm_circuit_n_qubits := icm_circuit_n_qubits st + int (length (qubit_indices op)),
             compiled_qubit_index :=
               compiled_qubit_index st
                 ++ map_of (rev (zip (qubit_indices op)
                      (fresh (icm_circuit_n_qubits st) (length (qubit_indices op)))))\<rparr>)"
  using assms by (simp add: icm_op_def reset_loop_eq)

lemma icm_op_other:
  assumes "gate_name op \<notin> set gates" and "gate_name op \<noteq> ''RESET''"
  shows "icm_op gates op st =
     (case dict_items (compiled_qubit_index st) (qubit_indices op) of
        Inl e \<Rightarrow> Inl e
      | Inr qs \<Rightarrow> Inr (st\<lparr>icm_circuit := icm_circuit st @ [op\<lparr>qubit_indices := qs\<rparr>]\<rparr>))"
  using assms by (simp add: icm_op_def)

lemma icm_op_branches:
  obtains (dec) "gate_name op \<in> set gates"
    | (reset) "gate_name op \<notin> set gates" "gate_name op = ''RESET''"
    | (other) "gate_name op \<notin> set gates" "gate_name op \<noteq> ''RESET''"
  by blast

subsection \<open>The dictionary is the trace of allocations\<close>

lemma icm_op_trace:
  assumes "icm_op gates op st = Inr st'"
  shows "icm_circuit_n_qubits st' =
           icm_circuit_n_qubits st
             + int (length (op_allocations gates (icm_circuit_n_qubits st) op))
       \<and> compiled_qubit_index st' =
           compiled_qubit_index st
             ++ map_of (rev (op_allocations gates (icm_circuit_n_qubits st) op))"
proof (cases rule: icm_op_branches[of op gates])
  case dec
  with assms show ?thesis
    by (auto simp: icm_op_decompose op_allocations_def allocates_def length_fresh)
next
  case reset
  with assms show ?thesis
    by (auto simp: icm_op_reset op_allocations_def allocates_def length_fresh)
next
  case other
  with assms show ?thesis
    by (auto simp: icm_op_other op_allocations_def allocates_def split: sum.splits)
qed

lemma icm_loop_trace:
  assumes "icm_loop gates ops st = Inr st'"
  shows "icm_circuit_n_qubits st' =
           icm_circuit_n_qubits st
             + int (length (allocations gates (icm_circuit_n_qubits st) ops))
       \<and> compiled_qubit_index st' =
           compiled_qubit_index st
             ++ map_of (rev (allocations gates (icm_circuit_n_qubits st) ops))"
  using assms
proof (induction ops arbitrary: st)
  case Nil
  then show ?case by simp
next
  case (Cons op ops)
  then obtain st1 where s1: "icm_op gates op st = Inr st1"
    and r: "icm_loop gates ops st1 = Inr st'"
    by (auto split: sum.splits)
  note t = icm_op_trace[OF s1] and ih = Cons.IH[OF r]
  show ?case
    using t ih by (simp add: Let_def)
qed

lemma map_snd_allocations:
  "map snd (allocations gates c ops) = fresh c (length (allocations gates c ops))"
proof (induction ops arbitrary: c)
  case Nil
  show ?case by simp
next
  case (Cons op ops)
  show ?case
  proof (cases "allocates gates op")
    case True
    then show ?thesis
      using Cons.IH[of "c + int (length (qubit_indices op))"]
      by (simp add: op_allocations_def length_fresh fresh_append)
  next
    case False
    then show ?thesis
      using Cons.IH[of c] by (simp add: op_allocations_def)
  qed
qed

lemma allocations_above:
  assumes "(q, a) \<in> set (allocations gates c ops)"
  shows "c < a"
proof -
  from assms have "a \<in> set (map snd (allocations gates c ops))"
    by force
  then show ?thesis
    unfolding map_snd_allocations set_fresh by simp
qed

lemma dict_get_init: "dict_get (compiled_qubit_index (icm_init n)) q = q"
  by (simp add: dict_get_def icm_init_def)

lemma dict_get_add:
  "dict_get (d ++ map_of (rev hist)) q =
     (case latest_ancilla hist q of Some a \<Rightarrow> a | None \<Rightarrow> dict_get d q)"
  by (simp add: dict_get_def latest_ancilla_def map_add_def split: option.splits)

lemma latest_ancilla_None: "latest_ancilla hist q = None \<longleftrightarrow> q \<notin> fst ` set hist"
  by (simp add: latest_ancilla_def map_of_eq_None_iff)

lemma latest_ancilla_last:
  "q \<notin> fst ` set h2 \<Longrightarrow> latest_ancilla (h1 @ (q, a) # h2) q = Some a"
  by (simp add: latest_ancilla_def map_add_def map_of_eq_None_iff[THEN iffD2]
      split: option.splits)

subsection \<open>Prefixes of a run\<close>

lemma icm_loop_append:
  "icm_loop gates (xs @ ys) st =
     (case icm_loop gates xs st of Inl e \<Rightarrow> Inl e | Inr st1 \<Rightarrow> icm_loop gates ys st1)"
  by (induction xs arbitrary: st) (auto split: sum.splits)

lemma icm_op_extends:
  assumes "icm_op gates op st = Inr st'"
  shows "\<exists>rest. icm_circuit st' = icm_circuit st @ rest"
proof (cases rule: icm_op_branches[of op gates])
  case dec
  with assms show ?thesis by (auto simp: icm_op_decompose)
next
  case reset
  with assms show ?thesis by (auto simp: icm_op_reset)
next
  case other
  with assms show ?thesis by (auto simp: icm_op_other split: sum.splits)
qed

lemma icm_loop_extends:
  "icm_loop gates ops st = Inr st' \<Longrightarrow> \<exists>rest. icm_circuit st' = icm_circuit st @ rest"
proof (induction ops arbitrary: st)
  case Nil
  then show ?case by simp
next
  case (Cons op ops)
  then obtain st1 where s1: "icm_op gates op st = Inr st1"
    and r: "icm_loop gates ops st1 = Inr st'"
    by (auto split: sum.splits)
  from icm_op_extends[OF s1] Cons.IH[OF r] show ?case by auto
qed

text \<open>A run that succeeds on a circuit has succeeded on every prefix of it.\<close>

lemma icm_run_split:
  assumes "icm_run gates c = Inr st" and "operations c = pre @ op # post"
  obtains st_pre st_op where
    "icm_run gates (c\<lparr>operations := pre\<rparr>) = Inr st_pre"
    "icm_op gates op st_pre = Inr st_op"
    "icm_run gates (c\<lparr>operations := pre @ [op]\<rparr>) = Inr st_op"
    "icm_loop gates post st_op = Inr st"
proof -
  from assms have "icm_loop gates (pre @ op # post) (icm_init (n_qubits c)) = Inr st"
    by (simp add: icm_run_def)
  then obtain st_pre st_op where
      a: "icm_loop gates pre (icm_init (n_qubits c)) = Inr st_pre"
    and b: "icm_op gates op st_pre = Inr st_op"
    and d: "icm_loop gates post st_op = Inr st"
    by (auto simp: icm_loop_append split: sum.splits)
  from a b have "icm_loop gates (pre @ [op]) (icm_init (n_qubits c)) = Inr st_op"
    by (simp add: icm_loop_append)
  with a b d that show ?thesis
    by (simp add: icm_run_def)
qed

lemma icm_run_trace:
  assumes "icm_run gates c = Inr st"
  shows "icm_circuit_n_qubits st =
           n_qubits c - 1 + int (length (allocations gates (n_qubits c - 1) (operations c)))"
    and "dict_get (compiled_qubit_index st) q =
           current_index (allocations gates (n_qubits c - 1) (operations c)) q"
proof -
  from assms have "icm_loop gates (operations c) (icm_init (n_qubits c)) = Inr st"
    by (simp add: icm_run_def)
  from icm_loop_trace[OF this]
  have c: "icm_circuit_n_qubits st =
        n_qubits c - 1 + int (length (allocations gates (n_qubits c - 1) (operations c)))"
    and d: "compiled_qubit_index st =
        compiled_qubit_index (icm_init (n_qubits c))
          ++ map_of (rev (allocations gates (n_qubits c - 1) (operations c)))"
    by (simp_all add: icm_init_def)
  from c show "icm_circuit_n_qubits st =
        n_qubits c - 1 + int (length (allocations gates (n_qubits c - 1) (operations c)))" .
  show "dict_get (compiled_qubit_index st) q =
           current_index (allocations gates (n_qubits c - 1) (operations c)) q"
    unfolding d dict_get_add dict_get_init current_index_def ..
qed

subsection \<open>No operation is rejected\<close>





subsection \<open>Claims about \<^verbatim>\<open>get_icm\<close>\<close>




text \<open>
  Claim C5, as stated, fails for a decomposition set that holds a gate on several qubits:
  one occurrence of \<^verbatim>\<open>CPHASE\<close> on the qubits 0 and 1 is replaced by two CNOTs onto the
  two new indices 2 and 3. It also fails for \<^verbatim>\<open>RESET\<close> when that name is in the
  decomposition set: the first branch is taken and a CNOT is emitted.
\<close>

theorem get_icm_one_ancilla_counterexample:
  "get_icm [''CPHASE'']
     \<lparr>operations = [\<lparr>gate_name = ''CPHASE'', qubit_indices = [0, 1]\<rparr>], n_qubits = 2\<rparr>
     = Inr [CNOT 0 2, CNOT 1 3]
   \<and> get_icm [''RESET'']
     \<lparr>operations = [\<lparr>gate_name = ''RESET'', qubit_indices = [0]\<rparr>], n_qubits = 1\<rparr>
     = Inr [CNOT 0 1]"
  by (simp add: get_icm_def icm_run_def icm_init_def icm_op_def dict_get_def)

text \<open>
  Claim C5, amended: when the loop reaches an operation \<open>op\<close> after the operations \<open>pre\<close>,
  with the counter at \<open>c\<close>, the new indices are \<open>c + 1, \<dots>, c + k\<close>, one for each of the
  \<open>k\<close> qubits of \<open>op\<close>. An operation of the decomposition set appends exactly the \<open>k\<close>
  CNOTs from the current index of each of its qubits to the new index of that qubit; a
  \<^verbatim>\<open>RESET\<close> that is not in the decomposition set appends nothing; both store the new
  indices in the dictionary and advance the counter by \<open>k\<close>. The new indices are
  pairwise distinct, none is below \<^verbatim>\<open>n_qubits\<close>, and none was allocated before: the
  dictionary before \<open>op\<close> is the initial one overwritten with the earlier allocations.
\<close>

theorem get_icm_allocates_per_qubit:
  assumes "get_icm gates c = Inr out" and "operations c = pre @ op # post"
  shows "\<exists>st_pre st_op.
       icm_run gates (c\<lparr>operations := pre\<rparr>) = Inr st_pre
     \<and> icm_run gates (c\<lparr>operations := pre @ [op]\<rparr>) = Inr st_op
     \<and> compiled_qubit_index st_pre =
         compiled_qubit_index (icm_init (n_qubits c))
           ++ map_of (rev (allocations gates (n_qubits c - 1) pre))
     \<and> (let k = length (qubit_indices op); new = fresh (icm_circuit_n_qubits st_pre) k in
         (gate_name op \<in> set gates \<longrightarrow>
            icm_circuit st_op =
              icm_circuit st_pre
                @ map2 CNOT (map (dict_get (compiled_qubit_index st_pre)) (qubit_indices op)) new
          \<and> icm_circuit_n_qubits st_op = icm_circuit_n_qubits st_pre + int k)
       \<and> (gate_name op \<notin> set gates \<and> gate_name op = ''RESET'' \<longrightarrow>
            icm_circuit st_op = icm_circuit st_pre
          \<and> icm_circuit_n_qubits st_op = icm_circuit_n_qubits st_pre + int k)
       \<and> (allocates gates op \<longrightarrow>
            compiled_qubit_index st_op =
              compiled_qubit_index st_pre ++ map_of (rev (zip (qubit_indices op) new)))
       \<and> distinct new
       \<and> (\<forall>a \<in> set new.
            n_qubits c \<le> a \<and> a \<notin> snd ` set (allocations gates (n_qubits c - 1) pre)))"
proof -
  from assms(1) obtain st where st: "icm_run gates c = Inr st"
    by (auto simp: get_icm_def split: sum.splits)
  from icm_run_split[OF st assms(2)] obtain st_pre st_op where
    pre: "icm_run gates (c\<lparr>operations := pre\<rparr>) = Inr st_pre"
    and step: "icm_op gates op st_pre = Inr st_op"
    and preop: "icm_run gates (c\<lparr>operations := pre @ [op]\<rparr>) = Inr st_op"
    by blast
  define hist where "hist = allocations gates (n_qubits c - 1) pre"
  define k where "k = length (qubit_indices op)"
  define new where "new = fresh (icm_circuit_n_qubits st_pre) k"
  from pre have "icm_loop gates pre (icm_init (n_qubits c)) = Inr st_pre"
    by (simp add: icm_run_def)
  from icm_loop_trace[OF this]
  have cnt: "icm_circuit_n_qubits st_pre = n_qubits c - 1 + int (length hist)"
    and dict: "compiled_qubit_index st_pre =
        compiled_qubit_index (icm_init (n_qubits c)) ++ map_of (rev hist)"
    by (simp_all add: icm_init_def hist_def)
  have dec: "gate_name op \<in> set gates \<longrightarrow>
            icm_circuit st_op =
              icm_circuit st_pre
                @ map2 CNOT (map (dict_get (compiled_qubit_index st_pre)) (qubit_indices op)) new
          \<and> icm_circuit_n_qubits st_op = icm_circuit_n_qubits st_pre + int k"
    using step by (auto simp: icm_op_decompose new_def k_def)
  have reset: "gate_name op \<notin> set gates \<and> gate_name op = ''RESET'' \<longrightarrow>
            icm_circuit st_op = icm_circuit st_pre
          \<and> icm_circuit_n_qubits st_op = icm_circuit_n_qubits st_pre + int k"
    using step by (auto simp: icm_op_reset new_def k_def)
  have upd: "allocates gates op \<longrightarrow>
            compiled_qubit_index st_op =
              compiled_qubit_index st_pre ++ map_of (rev (zip (qubit_indices op) new))"
    using icm_op_trace[OF step] by (simp add: op_allocations_def new_def k_def)
  have "snd ` set hist = set (map snd hist)"
    by simp
  also have "\<dots> = {n_qubits c .. n_qubits c - 1 + int (length hist)}"
    unfolding hist_def map_snd_allocations set_fresh by simp
  finally have old: "snd ` set hist = {n_qubits c .. n_qubits c - 1 + int (length hist)}" .
  have new_set:
    "set new = {n_qubits c + int (length hist) .. n_qubits c - 1 + int (length hist) + int k}"
    by (simp add: new_def set_fresh cnt)
  have fr: "\<forall>a \<in> set new. n_qubits c \<le> a \<and> a \<notin> snd ` set hist"
    unfolding old new_set by auto
  have dist: "distinct new"
    by (simp add: new_def distinct_fresh)
  have "icm_run gates (c\<lparr>operations := pre\<rparr>) = Inr st_pre
     \<and> icm_run gates (c\<lparr>operations := pre @ [op]\<rparr>) = Inr st_op
     \<and> compiled_qubit_index st_pre =
         compiled_qubit_index (icm_init (n_qubits c)) ++ map_of (rev hist)
     \<and> ((gate_name op \<in> set gates \<longrightarrow>
            icm_circuit st_op =
              icm_circuit st_pre
                @ map2 CNOT (map (dict_get (compiled_qubit_index st_pre)) (qubit_indices op)) new
          \<and> icm_circuit_n_qubits st_op = icm_circuit_n_qubits st_pre + int k)
       \<and> (gate_name op \<notin> set gates \<and> gate_name op = ''RESET'' \<longrightarrow>
            icm_circuit st_op = icm_circuit st_pre
          \<and> icm_circuit_n_qubits st_op = icm_circuit_n_qubits st_pre + int k)
       \<and> (allocates gates op \<longrightarrow>
            compiled_qubit_index st_op =
              compiled_qubit_index st_pre ++ map_of (rev (zip (qubit_indices op) new)))
       \<and> distinct new
       \<and> (\<forall>a \<in> set new. n_qubits c \<le> a \<and> a \<notin> snd ` set hist))"
    by (intro conjI pre preop dict dec reset upd fr dist)
  then show ?thesis
    unfolding Let_def hist_def k_def new_def by (intro exI)
qed

text \<open>
  Witness for C5: the circuit \<^verbatim>\<open>[T(0), RESET(0), T(0)]\<close> on one qubit, at its last
  operation. The first \<^verbatim>\<open>T\<close> moved qubit 0 to index 1, the \<^verbatim>\<open>RESET\<close> to index 2 without
  an operation; the second \<^verbatim>\<open>T\<close> appends the single CNOT from 2 to the new index 3.
\<close>

theorem get_icm_allocates_per_qubit_witness:
  "get_icm default_gates_to_decompose
     \<lparr>operations = [T_gate 0, \<lparr>gate_name = ''RESET'', qubit_indices = [0]\<rparr>, T_gate 0],
      n_qubits = 1\<rparr>
     = Inr [CNOT 0 1, CNOT 2 3]
   \<and> (\<exists>st_pre st_op.
        icm_run default_gates_to_decompose
          \<lparr>operations = [T_gate 0, \<lparr>gate_name = ''RESET'', qubit_indices = [0]\<rparr>],
           n_qubits = 1\<rparr> = Inr st_pre
      \<and> icm_run default_gates_to_decompose
          \<lparr>operations = [T_gate 0, \<lparr>gate_name = ''RESET'', qubit_indices = [0]\<rparr>, T_gate 0],
           n_qubits = 1\<rparr> = Inr st_op
      \<and> icm_circuit_n_qubits st_pre = 2
      \<and> icm_circuit st_op = icm_circuit st_pre @ [CNOT 2 3]
      \<and> icm_circuit_n_qubits st_op = 3)"
proof -
  let ?R = "\<lparr>gate_name = ''RESET'', qubit_indices = [0]\<rparr>"
  let ?c = "\<lparr>operations = [T_gate 0, ?R, T_gate 0], n_qubits = 1\<rparr>"
  have run: "get_icm default_gates_to_decompose ?c = Inr [CNOT 0 1, CNOT 2 3]"
    by (simp add: get_icm_def icm_run_def icm_init_def icm_op_def default_gates_to_decompose_def
        dict_get_def T_gate_def)
  have split: "operations ?c = [T_gate 0, ?R] @ T_gate 0 # []"
    by simp
  from get_icm_allocates_per_qubit[OF run split] obtain st_pre st_op where
    a: "icm_run default_gates_to_decompose (?c\<lparr>operations := [T_gate 0, ?R]\<rparr>) = Inr st_pre"
    and b: "icm_run default_gates_to_decompose
              (?c\<lparr>operations := [T_gate 0, ?R] @ [T_gate 0]\<rparr>) = Inr st_op"
    and d: "let k = length (qubit_indices (T_gate 0));
                new = fresh (icm_circuit_n_qubits st_pre) k in
         (gate_name (T_gate 0) \<in> set default_gates_to_decompose \<longrightarrow>
            icm_circuit st_op =
              icm_circuit st_pre
                @ map2 CNOT (map (dict_get (compiled_qubit_index st_pre))
                    (qubit_indices (T_gate 0))) new
          \<and> icm_circuit_n_qubits st_op = icm_circuit_n_qubits st_pre + int k)"
    unfolding Let_def by blast
  from a have pre: "icm_circuit_n_qubits st_pre = 2"
    and cur: "dict_get (compiled_qubit_index st_pre) 0 = 2"
    by (auto simp: icm_run_def icm_init_def icm_op_def default_gates_to_decompose_def
        dict_get_def T_gate_def)
  from d pre cur have "icm_circuit st_op = icm_circuit st_pre @ [CNOT 2 3]"
    and "icm_circuit_n_qubits st_op = 3"
    by (simp_all add: Let_def T_gate_def default_gates_to_decompose_def)
  with run a b pre show ?thesis
    by auto
qed

text \<open>
  Claim C10: when the loop reaches an operation \<open>op\<close> after the operations \<open>pre\<close>, what it
  appends for \<open>op\<close> acts on \<open>current_index hist q\<close> for every qubit \<open>q\<close> of \<open>op\<close>, where
  \<open>hist\<close> is the trace of the allocations made so far: an operation that is passed through
  is emitted on these indices, a decomposed operation emits its CNOTs from them. The
  current index of a qubit that no earlier decomposition or reset touched is the qubit
  itself; the current index of a qubit that was touched is the index of its most recent
  allocation, and no allocated index is below \<^verbatim>\<open>n_qubits\<close>.
\<close>

theorem get_icm_remaps_to_latest_ancilla:
  assumes "get_icm gates c = Inr out" and "operations c = pre @ op # post"
  shows "let hist = allocations gates (n_qubits c - 1) pre;
             qs = map (current_index hist) (qubit_indices op);
             emitted =
               (if gate_name op \<in> set gates then
                  map2 CNOT qs (fresh (n_qubits c - 1 + int (length hist)) (length qs))
                else if gate_name op = ''RESET'' then []
                else [op\<lparr>qubit_indices := qs\<rparr>])
         in (\<exists>out_pre rest.
               get_icm gates (c\<lparr>operations := pre\<rparr>) = Inr out_pre
             \<and> get_icm gates (c\<lparr>operations := pre @ [op]\<rparr>) = Inr (out_pre @ emitted)
             \<and> out = out_pre @ emitted @ rest)
          \<and> (\<forall>q. q \<notin> fst ` set hist \<longrightarrow> current_index hist q = q)
          \<and> (\<forall>q a h1 h2. hist = h1 @ (q, a) # h2 \<and> q \<notin> fst ` set h2
                \<longrightarrow> current_index hist q = a)
          \<and> (\<forall>q a. (q, a) \<in> set hist \<longrightarrow> n_qubits c \<le> a)"
proof -
  define hist where "hist = allocations gates (n_qubits c - 1) pre"
  define qs where "qs = map (current_index hist) (qubit_indices op)"
  define emitted where "emitted =
               (if gate_name op \<in> set gates then
                  map2 CNOT qs (fresh (n_qubits c - 1 + int (length hist)) (length qs))
                else if gate_name op = ''RESET'' then []
                else [op\<lparr>qubit_indices := qs\<rparr>])"
  from assms(1) obtain st where st: "icm_run gates c = Inr st" and out: "out = icm_circuit st"
    by (auto simp: get_icm_def split: sum.splits)
  from icm_run_split[OF st assms(2)] obtain st_pre st_op where
    pre: "icm_run gates (c\<lparr>operations := pre\<rparr>) = Inr st_pre"
    and step: "icm_op gates op st_pre = Inr st_op"
    and preop: "icm_run gates (c\<lparr>operations := pre @ [op]\<rparr>) = Inr st_op"
    and post: "icm_loop gates post st_op = Inr st"
    by blast
  from icm_run_trace[OF pre]
  have cnt: "icm_circuit_n_qubits st_pre = n_qubits c - 1 + int (length hist)"
    and cur: "\<And>q. dict_get (compiled_qubit_index st_pre) q = current_index hist q"
    by (simp_all add: hist_def)
  have qs: "map (dict_get (compiled_qubit_index st_pre)) (qubit_indices op) = qs"
    by (simp add: qs_def cur)
  have em: "icm_circuit st_op = icm_circuit st_pre @ emitted"
  proof (cases rule: icm_op_branches[of op gates])
    case dec
    with step have "icm_circuit st_op = icm_circuit st_pre @
        map2 CNOT (map (dict_get (compiled_qubit_index st_pre)) (qubit_indices op))
          (fresh (icm_circuit_n_qubits st_pre) (length (qubit_indices op)))"
      by (auto simp: icm_op_decompose)
    with dec show ?thesis
      by (simp add: emitted_def qs cnt) (simp add: qs_def)
  next
    case reset
    with step show ?thesis
      by (auto simp: icm_op_reset emitted_def)
  next
    case other
    with step obtain vs where
      vs: "dict_items (compiled_qubit_index st_pre) (qubit_indices op) = Inr vs"
      and so: "st_op = st_pre\<lparr>icm_circuit := icm_circuit st_pre @ [op\<lparr>qubit_indices := vs\<rparr>]\<rparr>"
      by (auto simp: icm_op_other split: sum.splits)
    from dict_items_eq[OF vs] qs have "vs = qs" by simp
    with so other show ?thesis
      by (simp add: emitted_def)
  qed
  from icm_loop_extends[OF post] obtain rest where
    rest: "icm_circuit st = icm_circuit st_op @ rest"
    by blast
  have 1: "\<exists>out_pre rest.
               get_icm gates (c\<lparr>operations := pre\<rparr>) = Inr out_pre
             \<and> get_icm gates (c\<lparr>operations := pre @ [op]\<rparr>) = Inr (out_pre @ emitted)
             \<and> out = out_pre @ emitted @ rest"
    using pre preop em rest out by (auto simp: get_icm_def)
  have 2: "\<forall>q. q \<notin> fst ` set hist \<longrightarrow> current_index hist q = q"
    by (auto simp: current_index_def latest_ancilla_None[symmetric])
  have 3: "\<forall>q a h1 h2. hist = h1 @ (q, a) # h2 \<and> q \<notin> fst ` set h2
             \<longrightarrow> current_index hist q = a"
    using latest_ancilla_last by (auto simp: current_index_def)
  have 4: "\<forall>q a. (q, a) \<in> set hist \<longrightarrow> n_qubits c \<le> a"
    using allocations_above[of _ _ gates "n_qubits c - 1" pre] by (fastforce simp: hist_def)
  from 1 2 3 4 show ?thesis
    unfolding Let_def hist_def[symmetric] qs_def[symmetric] emitted_def[symmetric]
    by (intro conjI)
qed

text \<open>
  Witness for C10: the circuit \<^verbatim>\<open>[T(0), H(0), H(1)]\<close> on two qubits. After the \<^verbatim>\<open>T\<close> on
  qubit 0, the \<^verbatim>\<open>H\<close> on qubit 0 is emitted on the new index 2.
\<close>

theorem get_icm_remaps_to_latest_ancilla_witness:
  "get_icm default_gates_to_decompose
     \<lparr>operations = [T_gate 0, H_gate 0, H_gate 1], n_qubits = 2\<rparr>
     = Inr [CNOT 0 2, H_gate 2, H_gate 1]
   \<and> (\<exists>out_pre rest.
         get_icm default_gates_to_decompose \<lparr>operations = [T_gate 0], n_qubits = 2\<rparr>
           = Inr out_pre
       \<and> get_icm default_gates_to_decompose
           \<lparr>operations = [T_gate 0, H_gate 0], n_qubits = 2\<rparr> = Inr (out_pre @ [H_gate 2])
       \<and> [CNOT 0 2, H_gate 2, H_gate 1] = out_pre @ [H_gate 2] @ rest)"
proof -
  let ?c = "\<lparr>operations = [T_gate 0, H_gate 0, H_gate 1], n_qubits = 2\<rparr>"
  have run: "get_icm default_gates_to_decompose ?c = Inr [CNOT 0 2, H_gate 2, H_gate 1]"
    by (simp add: get_icm_def icm_run_def icm_init_def icm_op_def default_gates_to_decompose_def
        dict_get_def T_gate_def H_gate_def)
  have split: "operations ?c = [T_gate 0] @ H_gate 0 # [H_gate 1]"
    by simp
  from get_icm_remaps_to_latest_ancilla[OF run split] run
  show ?thesis
    by (simp add: Let_def default_gates_to_decompose_def op_allocations_def allocates_def
        current_index_def latest_ancilla_def T_gate_def H_gate_def)
qed

section \<open>Properties of the tableau comparison\<close>

text \<open>
  Claim C1 says that the comparison establishes that the generators of the two tableaus
  commute pairwise. The code does not: the tableau of the state \<open>|++\<rangle>\<close> (generators XI
  and IX) and that of \<open>|00\<rangle>\<close> (generators ZI and IZ) pass
  \<^verbatim>\<open>assert_tableaus_correspond_to_the_same_stabilizer_state\<close>, although XI and ZI do not
  commute and \<^verbatim>\<open>check_tableau_entries_commute\<close>, had it been called, returns \<^verbatim>\<open>False\<close> on
  them. Moreover \<^verbatim>\<open>check_tableau_entries_commute\<close> reads \<^verbatim>\<open>len(tableau_1) // 2\<close> rows
  only: on the generators XI, IX against XI, IZ it returns \<^verbatim>\<open>True\<close>, although IX and IZ
  do not commute.
\<close>

theorem assert_tableaus_passes_without_commutation:
  "assert_tableaus_correspond_to_the_same_stabilizer_state
     [[True, False, False, False], [False, True, False, False]]
     [[False, False, True, False], [False, False, False, True]]
   \<and> commutes [True, False, False, False] [False, False, True, False] = Some False
   \<and> check_tableau_entries_commute
       [[True, False, False, False], [False, True, False, False]]
       [[False, False, True, False], [False, False, False, True]] = Some False
   \<and> check_tableau_entries_commute
       [[True, False, False, False], [False, True, False, False]]
       [[True, False, False, False], [False, False, False, True]] = Some True
   \<and> commutes [False, True, False, False] [False, False, False, True] = Some False"
  by (simp add: assert_tableaus_correspond_to_the_same_stabilizer_state_def shape_def
      matrix_rank_def check_tableau_entries_commute_def commutes_def bool_dot_def
      logical_and_def)

section \<open>Properties of the graph-state compiler\<close>

subsection \<open>The vertex count\<close>

lemma add_edge_count [simp]:
  "n_vertices (add_edge u v g) = n_vertices g"
  "n_teleportations (add_edge u v g) = n_teleportations g"
  by (simp_all add: add_edge_def n_vertices_def Let_def)









subsection \<open>Evaluating the compiler on concrete circuits\<close>

lemma replicate_numeral: "replicate (numeral k) x = x # replicate (pred_numeral k) x"
  by (simp add: numeral_eq_Suc)

lemmas compile_eval = replicate_numeral nth_append
  compile_def icm_run_def icm_init_def icm_op_def default_gates_to_decompose_def
  star_circuit_def t_chain_circuit_def H_gate_def T_gate_def CNOT_def test_hyperparams_def
  default_max_graph_size_def dict_get_def
  builder_op_def clifford_gate_names_def place_edge_def resolve_endpoint_def degree_def
  neighbors_def n_vertices_def init_graph_def add_edge_def teleportation_def
  chain_neighbors_def no_candidate_def Let_def upt_rec

text \<open>
  With a candidate search that finds nothing, the model gives, on every row of the
  parameter table of the test, the number of teleportations and the number of nodes the
  test expects.
\<close>

lemma model_agrees_with_teleportation_test:
  "list_all
     (\<lambda>(c, threshold, distance, num_teleportations).
        case compile (test_hyperparams threshold distance) default_max_graph_size no_candidate
               default_gates_to_decompose c of
          Inr g \<Rightarrow> n_teleportations g = num_teleportations
                   \<and> int (n_vertices g) = expected_n_nodes c distance num_teleportations
        | Inl e \<Rightarrow> False)
     teleportation_cases"
  unfolding teleportation_cases_def list.pred_inject prod.case
  by (intro conjI TrueI)
     (simp_all add: compile_eval expected_n_nodes_def n_non_clifford_gates_def)

subsection \<open>Claims about the vertex count\<close>




subsection \<open>The worked example of teleportation\<close>

text \<open>
  Claim C3, as stated, fails: with threshold 4 and distance 4 the circuit
  \<^verbatim>\<open>H(0), CNOT(0,1), CNOT(0,2), CNOT(0,3), CNOT(0,4)\<close> is compiled without any
  teleportation. Vertex 0 reaches degree 4, which does not exceed the threshold; the
  result is the star on five vertices. This is also what the first row of the parameter
  table of the test expects.
\<close>

theorem star_circuit_teleportation_counterexample:
  "compile (test_hyperparams 4 4) default_max_graph_size no_candidate default_gates_to_decompose
     (star_circuit 5)
     = Inr ((init_graph 5)\<lparr>edge_data := [[4, 3, 2, 1], [0], [0], [0], [0]]\<rparr>)
   \<and> n_teleportations ((init_graph 5)\<lparr>edge_data := [[4, 3, 2, 1], [0], [0], [0], [0]]\<rparr>) = 0
   \<and> degree ((init_graph 5)\<lparr>edge_data := [[4, 3, 2, 1], [0], [0], [0], [0]]\<rparr>) 0 = 4
   \<and> operations (star_circuit 5) = [H_gate 0, CNOT 0 1, CNOT 0 2, CNOT 0 3, CNOT 0 4]
   \<and> hd teleportation_cases = (star_circuit 5, 4, 4, 0)"
  by (simp add: compile_eval teleportation_cases_def)

text \<open>
  Claim C3, amended: whatever the candidate search, compiling
  \<^verbatim>\<open>H(0), CNOT(0,1), CNOT(0,2), CNOT(0,3), CNOT(0,4)\<close> performs no teleportation with
  threshold 4 and distance 4 (vertex 0 ends with degree 4), and none with threshold 999.
  It takes a fifth coupling \<^verbatim>\<open>CNOT(0,5)\<close> to exceed threshold 4: then, when the search
  finds no candidate, exactly one teleportation is performed, with a chain of four new
  vertices, and vertex 0 ends with degree 5.
\<close>

theorem star_circuit_teleportation:
  "compile (test_hyperparams 4 4) default_max_graph_size search default_gates_to_decompose
     (star_circuit 5)
     = Inr ((init_graph 5)\<lparr>edge_data := [[4, 3, 2, 1], [0], [0], [0], [0]]\<rparr>)
   \<and> compile (test_hyperparams 999 4) default_max_graph_size search default_gates_to_decompose
     (star_circuit 5)
     = Inr ((init_graph 5)\<lparr>edge_data := [[4, 3, 2, 1], [0], [0], [0], [0]]\<rparr>)
   \<and> n_teleportations ((init_graph 5)\<lparr>edge_data := [[4, 3, 2, 1], [0], [0], [0], [0]]\<rparr>) = 0
   \<and> degree ((init_graph 5)\<lparr>edge_data := [[4, 3, 2, 1], [0], [0], [0], [0]]\<rparr>) 0 = 4
   \<and> compile (test_hyperparams 4 4) default_max_graph_size no_candidate
       default_gates_to_decompose (star_circuit 6)
     = Inr \<lparr>edge_data =
              [[6, 4, 3, 2, 1], [0], [0], [0], [0], [9], [0, 7], [6, 8], [7, 9], [5, 8]],
            attachment = (\<lambda>q. q)(0 := 9),
            n_teleportations = 1\<rparr>
   \<and> degree \<lparr>edge_data =
              [[6, 4, 3, 2, 1], [0], [0], [0], [0], [9], [0, 7], [6, 8], [7, 9], [5, 8]],
            attachment = (\<lambda>q. q)(0 := 9),
            n_teleportations = 1\<rparr> 0 = 5"
  by (simp add: compile_eval)

subsection \<open>The anytime controller\<close>






end
